theory Spec2Isabelle
  imports Complex_Main
begin

section \<open>JavaScript values used by the strategies\<close>

text \<open>
  A JavaScript number is a real (the value of the double); NaN and the infinities are not
  modelled. An indicator value is a number or \<open>undefined\<close>; it is modelled as
  \<open>real option\<close> with \<open>None\<close> for \<open>undefined\<close>. A relational comparison with
  \<open>undefined\<close> converts it to NaN and is therefore false. Comparisons are exact on
  doubles; the rounding of arithmetic is modelled by \<open>fl\<close> below in the accuracy and in
  the range filter, while the confidence scores are computed over the reals.
\<close>

type_synonym jsnum = "real option"

datatype direction = UP | DOWN

definition js_lt :: "jsnum \<Rightarrow> jsnum \<Rightarrow> bool" where
  "js_lt a b = (case a of None \<Rightarrow> False | Some x \<Rightarrow> (case b of None \<Rightarrow> False | Some y \<Rightarrow> x < y))"

definition js_le :: "jsnum \<Rightarrow> jsnum \<Rightarrow> bool" where
  "js_le a b = (case a of None \<Rightarrow> False | Some x \<Rightarrow> (case b of None \<Rightarrow> False | Some y \<Rightarrow> x \<le> y))"

definition js_gt :: "jsnum \<Rightarrow> jsnum \<Rightarrow> bool" where
  "js_gt a b = (case a of None \<Rightarrow> False | Some x \<Rightarrow> (case b of None \<Rightarrow> False | Some y \<Rightarrow> x > y))"

definition js_ge :: "jsnum \<Rightarrow> jsnum \<Rightarrow> bool" where
  "js_ge a b = (case a of None \<Rightarrow> False | Some x \<Rightarrow> (case b of None \<Rightarrow> False | Some y \<Rightarrow> x \<ge> y))"

text \<open>
  Reading \<open>arr[i]\<close>: an index past the end of a JavaScript array reads \<open>undefined\<close>.
  \<open>arr_at\<close> reads an indicator array (whose elements may themselves be undefined),
  \<open>num_at\<close> a price array.
\<close>

definition arr_at :: "jsnum list \<Rightarrow> nat \<Rightarrow> jsnum" where
  "arr_at xs i = (if i < length xs then xs ! i else None)"

definition num_at :: "real list \<Rightarrow> nat \<Rightarrow> jsnum" where
  "num_at xs i = (if i < length xs then Some (xs ! i) else None)"

section \<open>Double arithmetic\<close>

text \<open>
  A JavaScript number is an IEEE 754 binary64 value, and every arithmetic operation rounds
  its exact result to the nearest such value, ties to even. \<open>fl\<close> is that rounding, for
  zero, normal and subnormal results; overflow to Infinity is not modelled.
  \<open>binary_exponent\<close> finds the e with 2^e \<le> x < 2^(e+1) by halving or doubling; 2100
  steps reach every double. Rounding is written out where a result is compared or
  reported: in the accuracy and in the range filter.
\<close>

definition round_half_even :: "real \<Rightarrow> int" where
  "round_half_even x =
     (let f = \<lfloor>x\<rfloor>; r = x - of_int f
      in if r < 1 / 2 then f else if 1 / 2 < r then f + 1 else if even f then f else f + 1)"

function binary_exponent :: "nat \<Rightarrow> real \<Rightarrow> int \<Rightarrow> int" where
  "binary_exponent fuel x e =
     (if fuel = 0 then e
      else if 2 \<le> x then binary_exponent (fuel - 1) (x / 2) (e + 1)
      else if x < 1 then binary_exponent (fuel - 1) (x * 2) (e - 1)
      else e)"
  by pat_completeness auto
termination
  by (relation "measure (\<lambda>(fuel, x, e). fuel)") auto

declare binary_exponent.simps [simp del]

definition ulp_at :: "int \<Rightarrow> real" where
  "ulp_at e = 2 powi (max e (- 1022) - 52)"

definition fl :: "real \<Rightarrow> real" where
  "fl x =
     (if x = 0 then 0
      else
        let u = ulp_at (binary_exponent 2100 \<bar>x\<bar> 0)
        in sgn x * (of_int (round_half_even (\<bar>x\<bar> / u)) * u))"

section \<open>Aligning an indicator series with the candles\<close>

text \<open>
  \<open>while (arr.length < candles.length) arr.unshift(undefined)\<close>: the EMA, ADX, SMA and
  Stochastic series are padded on the left with \<open>undefined\<close>.
\<close>

function pad_undefined :: "nat \<Rightarrow> jsnum list \<Rightarrow> jsnum list" where
  "pad_undefined n xs = (if length xs < n then pad_undefined n (None # xs) else xs)"
  by pat_completeness auto
termination
  by (relation "measure (\<lambda>(n, xs). n - length xs)") auto

declare pad_undefined.simps [simp del]

text \<open>
  \<open>const diff = candles.length - psar.length;
  for (let i = 0; i < diff; i++) psar.unshift(psar[0]);\<close>
  (inside \<open>if (psar.length < candles.length)\<close>): the PSAR series is padded on the left
  with its own first element. \<open>unshift_first\<close> is one \<open>psar.unshift(psar[0])\<close>.
\<close>

definition unshift_first :: "jsnum list \<Rightarrow> jsnum list" where
  "unshift_first xs = arr_at xs 0 # xs"

fun pad_first_loop :: "nat \<Rightarrow> jsnum list \<Rightarrow> jsnum list" where
  "pad_first_loop 0 xs = xs"
| "pad_first_loop (Suc d) xs = pad_first_loop d (unshift_first xs)"

definition pad_first :: "nat \<Rightarrow> jsnum list \<Rightarrow> jsnum list" where
  "pad_first n xs = (if length xs < n then pad_first_loop (n - length xs) xs else xs)"

text \<open>
  \<open>while (psar.length < closes.length) psar.unshift(psar[0])\<close>: the same padding written
  as a while loop (SMA/PSAR/Stochastic backtest).
\<close>

function pad_first_while :: "nat \<Rightarrow> jsnum list \<Rightarrow> jsnum list" where
  "pad_first_while n xs = (if length xs < n then pad_first_while n (unshift_first xs) else xs)"
  by pat_completeness auto
termination
  by (relation "measure (\<lambda>(n, xs). n - length xs)") (auto simp: unshift_first_def)

declare pad_first_while.simps [simp del]

section \<open>Candles, the indicator library and the signal record\<close>

text \<open>
  A candle as the loaders build it. The volume is the synthetic, randomized value.
\<close>

record candle =
  open_price :: real
  high :: real
  low :: real
  close :: real
  volume :: real

text \<open>
  The functions of the \<open>technicalindicators\<close> package are outside the repository; the
  strategies are parameterised by them. \<open>PSAR_calculate\<close> takes the high and low arrays,
  step and max; \<open>EMA_calculate\<close> the period and the values; \<open>ADX_calculate\<close> the high,
  low and close arrays and the period, and yields the \<open>adx\<close> fields of the objects it
  returns, or \<open>None\<close> when it throws. \<open>toFixed2\<close> is \<open>Number.prototype.toFixed(2)\<close>.
\<close>

record indicators =
  PSAR_calculate :: "real list \<Rightarrow> real list \<Rightarrow> real \<Rightarrow> real \<Rightarrow> jsnum list"
  EMA_calculate :: "nat \<Rightarrow> real list \<Rightarrow> jsnum list"
  ADX_calculate :: "real list \<Rightarrow> real list \<Rightarrow> real list \<Rightarrow> nat \<Rightarrow> jsnum list option"
  toFixed2 :: "real \<Rightarrow> string"

text \<open>The argument of a signal function: some value that is not an array, or an array of candles.\<close>

datatype js_input = NotArray | Array "candle list"

text \<open>The signal object; \<open>signal = None\<close> is the string \<open>'NONE'\<close>.\<close>

record signal_result =
  signal :: "direction option"
  confidence :: real
  reason :: string
  skipped :: bool

definition neutral :: signal_result where
  "neutral = \<lparr>signal = None, confidence = 0, reason = [], skipped = True\<rparr>"

definition direction_text :: "direction \<Rightarrow> string" where
  "direction_text d = (case d of UP \<Rightarrow> ''UP'' | DOWN \<Rightarrow> ''DOWN'')"

section \<open>The flip detector and the filters\<close>

text \<open>
  \<open>let direction = null;
  if (closePrev <= psarPrev && closeCurr > psarCurr) direction = 'UP';
  if (closePrev >= psarPrev && closeCurr < psarCurr) direction = direction === 'UP' ? null : 'DOWN';\<close>
  The same code stands in every PSAR strategy and backtest.
\<close>

definition up_cross :: "jsnum \<Rightarrow> jsnum \<Rightarrow> jsnum \<Rightarrow> jsnum \<Rightarrow> bool" where
  "up_cross closePrev psarPrev closeCurr psarCurr = (js_le closePrev psarPrev \<and> js_gt closeCurr psarCurr)"

definition down_cross :: "jsnum \<Rightarrow> jsnum \<Rightarrow> jsnum \<Rightarrow> jsnum \<Rightarrow> bool" where
  "down_cross closePrev psarPrev closeCurr psarCurr = (js_ge closePrev psarPrev \<and> js_lt closeCurr psarCurr)"

text \<open>
  The two assignments, given whether each condition holds: \<open>direction\<close> starts as null,
  the first \<open>if\<close> sets it to UP, the second resets an UP to null and otherwise sets DOWN.
\<close>

definition flip_direction :: "bool \<Rightarrow> bool \<Rightarrow> direction option" where
  "flip_direction upHolds downHolds =
     (let direction = (if upHolds then Some UP else None)
      in if downHolds
         then (if direction = Some UP then None else Some DOWN)
         else direction)"

definition detect_cross :: "jsnum \<Rightarrow> jsnum \<Rightarrow> jsnum \<Rightarrow> jsnum \<Rightarrow> direction option" where
  "detect_cross closePrev psarPrev closeCurr psarCurr =
     flip_direction (up_cross closePrev psarPrev closeCurr psarCurr)
                    (down_cross closePrev psarPrev closeCurr psarCurr)"

text \<open>\<open>direction === 'UP' ? closeNext > closeCurr : closeNext < closeCurr\<close>\<close>

definition continuation :: "direction \<Rightarrow> jsnum \<Rightarrow> jsnum \<Rightarrow> bool" where
  "continuation d closeNext closeCurr =
     (if d = UP then js_gt closeNext closeCurr else js_lt closeNext closeCurr)"

text \<open>
  The EMA trend filter: \<open>if (ema200 !== undefined) { if (direction === 'UP' && crossClose < ema200)
  return result; if (direction === 'DOWN' && crossClose > ema200) return result; }\<close>.
  \<open>ema_blocks\<close> holds when the filter drops the signal.
\<close>

definition ema_blocks :: "direction \<Rightarrow> jsnum \<Rightarrow> jsnum \<Rightarrow> bool" where
  "ema_blocks d crossClose ema200 =
     (ema200 \<noteq> None \<and> ((d = UP \<and> js_lt crossClose ema200) \<or> (d = DOWN \<and> js_gt crossClose ema200)))"

text \<open>The ADX filter: \<open>if (adxVal !== undefined && adxVal < adxThreshold) return result;\<close>\<close>

definition adx_blocks :: "jsnum \<Rightarrow> real \<Rightarrow> bool" where
  "adx_blocks adxVal adxThreshold = (adxVal \<noteq> None \<and> js_lt adxVal (Some adxThreshold))"

text \<open>
  The range filter, with its lookback of 14 bars: \<open>sumRange += (highs[j] - lows[j])\<close> over
  the bars idx - 13 .. idx from 0, its mean \<open>sumRange / lookback\<close>, and the test
  \<open>currRange < avgRange * rangeMult\<close>, each operation rounded.
\<close>

definition range_blocks :: "real \<Rightarrow> real list \<Rightarrow> real list \<Rightarrow> nat \<Rightarrow> bool" where
  "range_blocks rangeMult highs lows idx =
     (rangeMult > 0 \<and> idx \<ge> 14 \<and>
      (let sumRange = foldl (\<lambda>acc j. fl (acc + fl (highs ! j - lows ! j))) 0 [idx - 14 + 1 ..< idx + 1];
           avgRange = fl (sumRange / 14);
           currRange = fl (highs ! idx - lows ! idx)
       in currRange < fl (avgRange * rangeMult)))"

text \<open>
  The persistence loop of \<open>psarAdxSignal\<close>:
  \<open>for (let j = crossIdx - 1; j >= 0; j--) { const side = closes[j] > psarArr[j] ? 'above' : 'below';
  barsSinceFlip++; if (side !== currentSide) break; }\<close>.
  A side is \<open>True\<close> for \<open>'above'\<close>. \<open>walk_back\<close> runs over the sides of the bars
  crossIdx - 1, crossIdx - 2, ..., 0.
\<close>

fun walk_back :: "bool \<Rightarrow> bool list \<Rightarrow> nat \<Rightarrow> nat" where
  "walk_back currentSide [] barsSinceFlip = barsSinceFlip"
| "walk_back currentSide (side # sides) barsSinceFlip =
     (if side \<noteq> currentSide then barsSinceFlip + 1
      else walk_back currentSide sides (barsSinceFlip + 1))"

definition sides_before :: "real list \<Rightarrow> jsnum list \<Rightarrow> nat \<Rightarrow> bool list" where
  "sides_before closes psarArr crossIdx =
     map (\<lambda>j. js_gt (num_at closes j) (arr_at psarArr j)) (rev [0 ..< crossIdx])"

definition persistence_blocks :: "nat \<Rightarrow> real list \<Rightarrow> jsnum list \<Rightarrow> nat \<Rightarrow> bool" where
  "persistence_blocks minFlips closes psarArr crossIdx =
     (minFlips > 1 \<and>
      (let currentSide = js_gt (num_at closes crossIdx) (arr_at psarArr crossIdx);
           barsSinceFlip = walk_back currentSide (sides_before closes psarArr crossIdx) 0
       in barsSinceFlip < minFlips))"

section \<open>psarSignal (core/psarStrategy.js)\<close>

definition psar_aligned :: "indicators \<Rightarrow> candle list \<Rightarrow> real \<Rightarrow> real \<Rightarrow> jsnum list" where
  "psar_aligned lib candles step mx =
     pad_first (length candles) (PSAR_calculate lib (map high candles) (map low candles) step mx)"

definition ema200_aligned :: "indicators \<Rightarrow> candle list \<Rightarrow> jsnum list" where
  "ema200_aligned lib candles =
     pad_undefined (length candles) (EMA_calculate lib 200 (map close candles))"

text \<open>
  With at least three candles the indices n - 3, n - 2 and n - 1 are not negative, so the
  second early return (\<open>prevIdx < 0 || ...\<close>) is never taken.
\<close>

definition psarSignal :: "indicators \<Rightarrow> js_input \<Rightarrow> signal_result" where
  "psarSignal lib input =
     (case input of
        NotArray \<Rightarrow> neutral
      | Array candles \<Rightarrow>
          if length candles < 3 then neutral
          else
            let closes = map close candles;
                psar = psar_aligned lib candles 0.02 0.2;
                ema200Arr = ema200_aligned lib candles;
                n = length candles;
                prevIdx = n - 3;
                crossIdx = n - 2;
                latestIdx = n - 1;
                prevClose = num_at closes prevIdx;
                crossClose = num_at closes crossIdx;
                latestClose = num_at closes latestIdx;
                prevPsar = arr_at psar prevIdx;
                crossPsar = arr_at psar crossIdx;
                ema200 = arr_at ema200Arr crossIdx
            in case detect_cross prevClose prevPsar crossClose crossPsar of
                 None \<Rightarrow> neutral
               | Some d \<Rightarrow>
                   if \<not> continuation d latestClose crossClose then neutral
                   else if ema_blocks d crossClose ema200 then neutral
                   else \<lparr>signal = Some d, confidence = 80,
                          reason = ''PSAR cross '' @ direction_text d @ '' with continuation and EMA200 filter'',
                          skipped = False\<rparr>)"

section \<open>psarAdxSignal (core/psarAdxStrategy.js)\<close>

text \<open>
  The configuration object; a missing field is \<open>None\<close> and takes its default through
  \<open>??\<close>. \<open>minFlips\<close> is a count of bars, a natural number.
\<close>

record config =
  psarStep :: "real option"
  psarMax :: "real option"
  adxThreshold :: "real option"
  minFlips :: "nat option"
  rangeMultiplier :: "real option"

definition nullish :: "'a option \<Rightarrow> 'a \<Rightarrow> 'a" where
  "nullish v d = (case v of None \<Rightarrow> d | Some x \<Rightarrow> x)"

text \<open>
  \<open>try { adxArr = ADX.calculate(...); while (adxArr.length < candles.length)
  adxArr.unshift({ adx: undefined }); } catch (e) { adxArr = new Array(candles.length).fill({ adx: undefined }); }\<close>
\<close>

definition adx_aligned :: "indicators \<Rightarrow> candle list \<Rightarrow> jsnum list" where
  "adx_aligned lib candles =
     (case ADX_calculate lib (map high candles) (map low candles) (map close candles) 14 of
        None \<Rightarrow> replicate (length candles) None
      | Some adxArr \<Rightarrow> pad_undefined (length candles) adxArr)"

definition psar_adx_confidence :: "jsnum \<Rightarrow> real \<Rightarrow> real \<Rightarrow> real" where
  "psar_adx_confidence adxVal adxThr rangeMult =
     (let c0 = 70;
          c1 = (case adxVal of None \<Rightarrow> c0 | Some a \<Rightarrow> c0 + min 30 ((a - adxThr) * 2));
          c2 = (if rangeMult > 0 then c1 + 5 else c1)
      in min c2 100)"

definition psarAdxSignal :: "indicators \<Rightarrow> js_input \<Rightarrow> config \<Rightarrow> signal_result" where
  "psarAdxSignal lib input cfg =
     (case input of
        NotArray \<Rightarrow> neutral
      | Array candles \<Rightarrow>
          if length candles < 3 then neutral
          else
            let step = nullish (psarStep cfg) 0.02;
                mx = nullish (psarMax cfg) 0.2;
                adxThr = nullish (adxThreshold cfg) 20;
                minFl = nullish (minFlips cfg) 1;
                rangeMult = nullish (rangeMultiplier cfg) 0;
                highs = map high candles;
                lows = map low candles;
                closes = map close candles;
                psarArr = psar_aligned lib candles step mx;
                ema200Arr = ema200_aligned lib candles;
                adxArr = adx_aligned lib candles;
                n = length candles;
                prevIdx = n - 3;
                crossIdx = n - 2;
                latestIdx = n - 1;
                prevClose = num_at closes prevIdx;
                crossClose = num_at closes crossIdx;
                latestClose = num_at closes latestIdx;
                prevPsar = arr_at psarArr prevIdx;
                crossPsar = arr_at psarArr crossIdx
            in case detect_cross prevClose prevPsar crossClose crossPsar of
                 None \<Rightarrow> neutral
               | Some d \<Rightarrow>
                   if \<not> continuation d latestClose crossClose then neutral
                   else if range_blocks rangeMult highs lows crossIdx then neutral
                   else if persistence_blocks minFl closes psarArr crossIdx then neutral
                   else if ema_blocks d crossClose (arr_at ema200Arr crossIdx) then neutral
                   else if adx_blocks (arr_at adxArr crossIdx) adxThr then neutral
                   else
                     let adxVal = arr_at adxArr crossIdx
                     in \<lparr>signal = Some d,
                         confidence = psar_adx_confidence adxVal adxThr rangeMult,
                         reason = ''PSAR cross '' @ direction_text d @ '' with continuation, ADX ''
                                  @ (case adxVal of None \<Rightarrow> ''n/a'' | Some a \<Rightarrow> toFixed2 lib a)
                                  @ '', EMA200 filter'',
                         skipped = False\<rparr>)"

section \<open>backtestStrategy (backtest_psar_adx.js)\<close>

datatype error = InsufficientData | IndicatorError | TypeError

record counters =
  totalTrades :: nat
  correctTrades :: nat

record psar_adx_state = counters +
  barsSinceFlip :: nat

record backtest_result =
  total :: nat
  correct :: nat
  accuracy :: real

text \<open>
  \<open>const isWin = direction === 'UP' ? exitPrice > entryPrice : exitPrice < entryPrice;\<close>
\<close>

definition isWin :: "direction \<Rightarrow> jsnum \<Rightarrow> jsnum \<Rightarrow> bool" where
  "isWin d entryPrice exitPrice =
     (if d = UP then js_gt exitPrice entryPrice else js_lt exitPrice entryPrice)"

text \<open>
  \<open>totalTrades > 0 ? (correctTrades / totalTrades) * 100 : 0\<close>: the division is rounded,
  then the product.
\<close>

definition accuracy_of :: "nat \<Rightarrow> nat \<Rightarrow> real" where
  "accuracy_of totalTr correctTr =
     (if totalTr > 0 then fl (fl (real correctTr / real totalTr) * 100) else 0)"

text \<open>
  One iteration of the loop, at bar i. The indicator arrays are read as the library
  returned them, without padding. \<open>expiryBars\<close> and \<open>minFlips\<close> are natural numbers.
  \<open>ema200\<close> and \<open>adx\<close> are \<open>null\<close> when the array has no element at i; \<open>adxArr\<close>
  holds the \<open>adx\<close> fields, and an undefined field passes the ADX test as \<open>null\<close> does,
  so both are \<open>None\<close> here.
\<close>

definition bump_bars :: "psar_adx_state \<Rightarrow> psar_adx_state" where
  "bump_bars st = st\<lparr>barsSinceFlip := barsSinceFlip st + 1\<rparr>"

definition open_trade :: "direction \<Rightarrow> jsnum \<Rightarrow> jsnum \<Rightarrow> psar_adx_state \<Rightarrow> psar_adx_state" where
  "open_trade d entryPrice exitPrice st =
     st\<lparr>totalTrades := totalTrades st + 1,
        correctTrades := (if isWin d entryPrice exitPrice then correctTrades st + 1 else correctTrades st)\<rparr>"

definition bt_step ::
  "real list \<Rightarrow> real list \<Rightarrow> real list \<Rightarrow> jsnum list \<Rightarrow> jsnum list \<Rightarrow> jsnum list \<Rightarrow>
   nat \<Rightarrow> real \<Rightarrow> nat \<Rightarrow> real \<Rightarrow> psar_adx_state \<Rightarrow> nat \<Rightarrow> psar_adx_state" where
  "bt_step highs lows closes psarArr ema200Arr adxArr expiryBars adxThr minFl rangeMult st i =
     (if arr_at psarArr (i - 1) = None \<or> arr_at psarArr i = None then bump_bars st
      else
        let closePrev = num_at closes (i - 1);
            closeCurr = num_at closes i;
            closeNext = num_at closes (i + 1);
            psarPrev = arr_at psarArr (i - 1);
            psarCurr = arr_at psarArr i;
            ema200 = arr_at ema200Arr i;
            adx = arr_at adxArr i
        in case detect_cross closePrev psarPrev closeCurr psarCurr of
             None \<Rightarrow> bump_bars st
           | Some d \<Rightarrow>
               if \<not> continuation d closeNext closeCurr then bump_bars st
               else if barsSinceFlip st < minFl then st\<lparr>barsSinceFlip := 0\<rparr>
               else
                 let st0 = st\<lparr>barsSinceFlip := 0\<rparr>
                 in if range_blocks rangeMult highs lows i then st0
                    else if ema_blocks d closeCurr ema200 then st0
                    else if adx_blocks adx adxThr then st0
                    else open_trade d (num_at closes (i + 1)) (num_at closes (i + 1 + expiryBars)) st0)"

text \<open>\<open>for (let i = 1; i < candles.length - (expiryBars + 1); i++)\<close>\<close>

definition loop_indices :: "nat \<Rightarrow> nat \<Rightarrow> nat list" where
  "loop_indices n expiryBars = [1 ..< n - (expiryBars + 1)]"

definition bt_init :: psar_adx_state where
  "bt_init = \<lparr>totalTrades = 0, correctTrades = 0, barsSinceFlip = 0\<rparr>"

definition backtestStrategy ::
  "indicators \<Rightarrow> candle list \<Rightarrow> nat \<Rightarrow> real \<Rightarrow> nat \<Rightarrow> real \<Rightarrow> real \<Rightarrow> real \<Rightarrow> error + backtest_result" where
  "backtestStrategy lib candles expiryBars adxThr minFl step mx rangeMult =
     (if length candles < 250 then Inl InsufficientData
      else
        let highs = map high candles;
            lows = map low candles;
            closes = map close candles;
            psarArr = PSAR_calculate lib highs lows step mx;
            ema200Arr = EMA_calculate lib 200 closes
        in case ADX_calculate lib highs lows closes 14 of
             None \<Rightarrow> Inl IndicatorError
           | Some adxArr \<Rightarrow>
               let st = foldl (bt_step highs lows closes psarArr ema200Arr adxArr expiryBars adxThr minFl rangeMult)
                          bt_init (loop_indices (length candles) expiryBars)
               in Inr \<lparr>total = totalTrades st, correct = correctTrades st,
                        accuracy = accuracy_of (totalTrades st) (correctTrades st)\<rparr>)"

text \<open>
  The array reads of one iteration, in the order of the source: which array, at which
  index. The second operand of \<open>||\<close> is read only when the first is defined, and
  \<open>arr[i] !== undefined ? arr[i] : null\<close> reads a defined element twice. The range
  filter reads highs and lows over its lookback window.
\<close>

datatype array_name = Closes | Highs | Lows | PsarArr | Ema200Arr | AdxArr

definition bt_reads ::
  "real list \<Rightarrow> real list \<Rightarrow> real list \<Rightarrow> jsnum list \<Rightarrow> jsnum list \<Rightarrow> jsnum list \<Rightarrow>
   nat \<Rightarrow> real \<Rightarrow> nat \<Rightarrow> real \<Rightarrow> psar_adx_state \<Rightarrow> nat \<Rightarrow> (array_name \<times> nat) list" where
  "bt_reads highs lows closes psarArr ema200Arr adxArr expiryBars adxThr minFl rangeMult st i =
     (PsarArr, i - 1) #
     (if arr_at psarArr (i - 1) = None then []
      else
        (PsarArr, i) #
        (if arr_at psarArr i = None then []
         else
           [(Closes, i - 1), (Closes, i), (Closes, i + 1), (PsarArr, i - 1), (PsarArr, i),
            (Ema200Arr, i)] @
           (if arr_at ema200Arr i = None then [] else [(Ema200Arr, i)]) @
           [(AdxArr, i)] @
           (if i < length adxArr then [(AdxArr, i)] else []) @
           (case detect_cross (num_at closes (i - 1)) (arr_at psarArr (i - 1))
                              (num_at closes i) (arr_at psarArr i) of
              None \<Rightarrow> []
            | Some d \<Rightarrow>
                if \<not> continuation d (num_at closes (i + 1)) (num_at closes i) then []
                else if barsSinceFlip st < minFl then []
                else
                  (if rangeMult > 0 \<and> i \<ge> 14
                   then concat (map (\<lambda>j. [(Highs, j), (Lows, j)]) [i - 14 + 1 ..< i + 1])
                        @ [(Highs, i), (Lows, i)]
                   else []) @
                  (if range_blocks rangeMult highs lows i then []
                   else if ema_blocks d (num_at closes i) (arr_at ema200Arr i) then []
                   else if adx_blocks (arr_at adxArr i) adxThr then []
                   else [(Closes, i + 1), (Closes, i + 1 + expiryBars)]))))"

definition array_length ::
  "real list \<Rightarrow> real list \<Rightarrow> real list \<Rightarrow> jsnum list \<Rightarrow> jsnum list \<Rightarrow> jsnum list \<Rightarrow> array_name \<Rightarrow> nat" where
  "array_length highs lows closes psarArr ema200Arr adxArr a =
     (case a of Closes \<Rightarrow> length closes | Highs \<Rightarrow> length highs | Lows \<Rightarrow> length lows
      | PsarArr \<Rightarrow> length psarArr | Ema200Arr \<Rightarrow> length ema200Arr | AdxArr \<Rightarrow> length adxArr)"

text \<open>The reads of the whole loop: those of each iteration, in the state it runs in.\<close>

fun bt_loop_reads ::
  "(psar_adx_state \<Rightarrow> nat \<Rightarrow> psar_adx_state) \<Rightarrow> (psar_adx_state \<Rightarrow> nat \<Rightarrow> (array_name \<times> nat) list)
   \<Rightarrow> psar_adx_state \<Rightarrow> nat list \<Rightarrow> (array_name \<times> nat) list" where
  "bt_loop_reads step reads st [] = []"
| "bt_loop_reads step reads st (i # rest) = reads st i @ bt_loop_reads step reads (step st i) rest"

definition backtest_reads ::
  "real list \<Rightarrow> real list \<Rightarrow> real list \<Rightarrow> jsnum list \<Rightarrow> jsnum list \<Rightarrow> jsnum list \<Rightarrow>
   nat \<Rightarrow> real \<Rightarrow> nat \<Rightarrow> real \<Rightarrow> (array_name \<times> nat) list" where
  "backtest_reads highs lows closes psarArr ema200Arr adxArr expiryBars adxThr minFl rangeMult =
     bt_loop_reads (bt_step highs lows closes psarArr ema200Arr adxArr expiryBars adxThr minFl rangeMult)
       (bt_reads highs lows closes psarArr ema200Arr adxArr expiryBars adxThr minFl rangeMult)
       bt_init (loop_indices (length closes) expiryBars)"

text \<open>The arrays made from the candles, as opposed to the indicator arrays.\<close>

definition candle_array :: "array_name \<Rightarrow> bool" where
  "candle_array a = (a = Closes \<or> a = Highs \<or> a = Lows)"

text \<open>Two candle arrays with the same prices bar by bar; the volumes are free.\<close>

definition agree_on_prices :: "candle list \<Rightarrow> candle list \<Rightarrow> bool" where
  "agree_on_prices cs cs' =
     (map open_price cs = map open_price cs' \<and> map high cs = map high cs'
      \<and> map low cs = map low cs' \<and> map close cs = map close cs')"

section \<open>The triple oscillator backtest (backtest_triple_oscillator.js)\<close>

text \<open>
  \<open>calculateEMA\<close>, \<open>calculateRSI\<close> and \<open>calculateStochastic\<close> come from
  \<open>./core/indicators\<close> and \<open>CCI.calculate\<close> from the package; the backtest is
  parameterised by them. \<open>calculateStochastic\<close> yields the arrays k and d.
\<close>

record oscillators =
  calculateEMA :: "real list \<Rightarrow> nat \<Rightarrow> jsnum list"
  calculateRSI :: "real list \<Rightarrow> jsnum list"
  calculateStochastic :: "candle list \<Rightarrow> jsnum list \<times> jsnum list"
  CCI_calculate :: "real list \<Rightarrow> real list \<Rightarrow> real list \<Rightarrow> nat \<Rightarrow> jsnum list"

record trade =
  entryIndex :: nat
  expiryIndex :: nat
  direction :: direction
  entryPrice :: real

record triple_state = counters +
  openTrades :: "trade list"

text \<open>\<open>arr[arr.length - k]\<close>; a negative index reads undefined.\<close>

definition from_end :: "jsnum list \<Rightarrow> nat \<Rightarrow> jsnum" where
  "from_end xs k = (if k \<le> length xs then arr_at xs (length xs - k) else None)"

definition triple_signal :: "oscillators \<Rightarrow> candle list \<Rightarrow> candle \<Rightarrow> direction option" where
  "triple_signal osc history candle =
     (let closes = map close history;
          highs = map high history;
          lows = map low history;
          ema200 = from_end (calculateEMA osc closes 200) 1;
          rsiArr = calculateRSI osc closes;
          rsi = from_end rsiArr 1;
          rsiPrev = from_end rsiArr 2;
          k = fst (calculateStochastic osc history);
          d = snd (calculateStochastic osc history);
          stochK = from_end k 1;
          stochD = from_end d 1;
          stochKPrev = from_end k 2;
          stochDPrev = from_end d 2;
          cciArr = CCI_calculate osc highs lows closes 14;
          cci = from_end cciArr 1;
          cciPrev = from_end cciArr 2
      in if rsi \<noteq> None \<and> rsiPrev \<noteq> None \<and> stochK \<noteq> None \<and> stochD \<noteq> None
            \<and> stochKPrev \<noteq> None \<and> stochDPrev \<noteq> None \<and> cci \<noteq> None \<and> cciPrev \<noteq> None
         then
           let oversold = (js_lt rsi (Some 35) \<and> js_lt stochK (Some 20) \<and> js_lt stochD (Some 20)
                           \<and> js_lt cci (Some (- 100)));
               turningUp = (js_gt rsi rsiPrev \<and> js_gt stochK stochKPrev \<and> js_gt stochD stochDPrev
                            \<and> js_gt cci cciPrev);
               overbought = (js_gt rsi (Some 65) \<and> js_gt stochK (Some 80) \<and> js_gt stochD (Some 80)
                             \<and> js_gt cci (Some 100));
               turningDown = (js_lt rsi rsiPrev \<and> js_lt stochK stochKPrev \<and> js_lt stochD stochDPrev
                              \<and> js_lt cci cciPrev)
           in if oversold \<and> turningUp \<and> js_gt (Some (close candle)) ema200 then Some UP
              else if overbought \<and> turningDown \<and> js_lt (Some (close candle)) ema200 then Some DOWN
              else None
         else None)"

text \<open>
  \<open>const resultUp = data[i].close > trade.entryPrice; const resultDown = data[i].close < trade.entryPrice;
  const correct = (trade.direction === 'UP' && resultUp) || (trade.direction === 'DOWN' && resultDown);\<close>
\<close>

definition trade_correct :: "trade \<Rightarrow> real \<Rightarrow> bool" where
  "trade_correct t closeNow =
     (let resultUp = closeNow > entryPrice t;
          resultDown = closeNow < entryPrice t
      in (direction t = UP \<and> resultUp) \<or> (direction t = DOWN \<and> resultDown))"

text \<open>
  The loop over \<open>openTrades\<close> at bar i; the state's \<open>openTrades\<close> collects
  \<open>remaining\<close>.
\<close>

fun resolve_trades :: "nat \<Rightarrow> real \<Rightarrow> trade list \<Rightarrow> triple_state \<Rightarrow> triple_state" where
  "resolve_trades i closeNow [] st = st"
| "resolve_trades i closeNow (t # ts) st =
     resolve_trades i closeNow ts
       (if expiryIndex t = i
        then st\<lparr>correctTrades := (if trade_correct t closeNow then correctTrades st + 1 else correctTrades st),
                totalTrades := totalTrades st + 1\<rparr>
        else st\<lparr>openTrades := openTrades st @ [t]\<rparr>)"

definition expire :: "nat \<Rightarrow> real \<Rightarrow> triple_state \<Rightarrow> triple_state" where
  "expire i closeNow st =
     (if openTrades st \<noteq> [] then resolve_trades i closeNow (openTrades st) (st\<lparr>openTrades := []\<rparr>)
      else st)"

definition triple_step :: "oscillators \<Rightarrow> candle list \<Rightarrow> triple_state \<Rightarrow> nat \<Rightarrow> triple_state" where
  "triple_step osc data st i =
     (let candle = data ! i;
          history = take (i + 1) data;
          st1 = expire i (close candle) st
      in if length history < 200 then st1
         else case triple_signal osc history candle of
                None \<Rightarrow> st1
              | Some sg \<Rightarrow>
                  st1\<lparr>openTrades := openTrades st1 @
                     [\<lparr>entryIndex = i, expiryIndex = i + 1, direction = sg, entryPrice = close candle\<rparr>]\<rparr>)"

definition triple_init :: triple_state where
  "triple_init = \<lparr>totalTrades = 0, correctTrades = 0, openTrades = []\<rparr>"

definition triple_final :: "oscillators \<Rightarrow> candle list \<Rightarrow> triple_state" where
  "triple_final osc data = foldl (triple_step osc data) triple_init [0 ..< length data]"

text \<open>The report printed at the end; with fewer than 210 candles the script stops first.\<close>

definition triple_backtest :: "oscillators \<Rightarrow> candle list \<Rightarrow> error + backtest_result" where
  "triple_backtest osc data =
     (if length data < 210 then Inl InsufficientData
      else
        let st = triple_final osc data
        in Inr \<lparr>total = totalTrades st, correct = correctTrades st,
                 accuracy = accuracy_of (totalTrades st) (correctTrades st)\<rparr>)"

text \<open>The bars at which the backtest pushes a new trade onto \<open>openTrades\<close>.\<close>

definition creates_trade :: "oscillators \<Rightarrow> candle list \<Rightarrow> nat \<Rightarrow> bool" where
  "creates_trade osc data i =
     (200 \<le> length (take (i + 1) data) \<and> triple_signal osc (take (i + 1) data) (data ! i) \<noteq> None)"

definition trades_created :: "oscillators \<Rightarrow> candle list \<Rightarrow> nat \<Rightarrow> nat" where
  "trades_created osc data k = length (filter (creates_trade osc data) [0 ..< k])"

text \<open>The trades the state accounts for: those counted and those still open.\<close>

definition ledger :: "triple_state \<Rightarrow> nat" where
  "ledger st = totalTrades st + length (openTrades st)"

section \<open>trendStrategy5m\<close>

record options =
  fastLen :: "nat option"
  slowLen :: "nat option"
  trendLen :: "nat option"
  adxLen :: "nat option"
  opt_adxThreshold :: "real option"

record signal5m =
  sig_index :: nat
  sig_direction :: direction
  sig_confidence :: real

text \<open>Reading an array at an integer index; a negative index reads undefined.\<close>

definition arr_at_int :: "jsnum list \<Rightarrow> int \<Rightarrow> jsnum" where
  "arr_at_int xs k = (if 0 \<le> k then arr_at xs (nat k) else None)"

text \<open>
  One iteration at bar i: the signals it pushes. \<open>adxValues[adxIdx].adx\<close> throws a
  TypeError when \<open>adxValues[adxIdx]\<close> is undefined; \<open>isNaN(adx)\<close> holds for an undefined
  \<open>adx\<close> field.
\<close>

definition trend_bar ::
  "real list \<Rightarrow> jsnum list \<Rightarrow> jsnum list \<Rightarrow> jsnum list \<Rightarrow> jsnum list \<Rightarrow> real \<Rightarrow> nat \<Rightarrow> nat
   \<Rightarrow> error + signal5m list" where
  "trend_bar closes fastEma slowEma trendEma adxValues adxThr n i =
     (let fastOffset = int n - int (length fastEma);
          slowOffset = int n - int (length slowEma);
          trendOffset = int n - int (length trendEma);
          adxOffset = int n - int (length adxValues);
          fastIdx = int i - fastOffset;
          slowIdx = int i - slowOffset;
          trendIdx = int i - trendOffset;
          adxIdx = int i - adxOffset
      in if fastIdx < 1 \<or> slowIdx < 1 \<or> trendIdx < 0 \<or> adxIdx < 0 then Inr []
         else if \<not> nat adxIdx < length adxValues then Inl TypeError
         else
           let prevFast = arr_at_int fastEma (fastIdx - 1);
               prevSlow = arr_at_int slowEma (slowIdx - 1);
               currFast = arr_at_int fastEma fastIdx;
               currSlow = arr_at_int slowEma slowIdx;
               currTrend = arr_at_int trendEma trendIdx;
               adx = arr_at_int adxValues adxIdx;
               price = num_at closes i
           in case adx of
                None \<Rightarrow> Inr []
              | Some a \<Rightarrow>
                  if a < adxThr then Inr []
                  else
                    let conf = min ((a - adxThr) / 50 + 0.5) 0.95
                    in Inr
                      ((if js_le prevFast prevSlow \<and> js_gt currFast currSlow \<and> js_gt price currTrend
                        then [\<lparr>sig_index = i, sig_direction = UP, sig_confidence = conf\<rparr>] else [])
                       @ (if js_ge prevFast prevSlow \<and> js_lt currFast currSlow \<and> js_lt price currTrend
                          then [\<lparr>sig_index = i, sig_direction = DOWN, sig_confidence = conf\<rparr>] else [])))"

text \<open>\<open>for (let i = 1; i < candles.length - 5; i++)\<close>, stopping at a thrown error.\<close>

fun trend_loop :: "(nat \<Rightarrow> error + signal5m list) \<Rightarrow> nat list \<Rightarrow> signal5m list \<Rightarrow> error + signal5m list" where
  "trend_loop body [] signals = Inr signals"
| "trend_loop body (i # rest) signals =
     (case body i of
        Inl e \<Rightarrow> Inl e
      | Inr new \<Rightarrow> trend_loop body rest (signals @ new))"

definition trendStrategy5m :: "indicators \<Rightarrow> candle list \<Rightarrow> options \<Rightarrow> error + signal5m list" where
  "trendStrategy5m lib candles opts =
     (let fastL = nullish (fastLen opts) 50;
          slowL = nullish (slowLen opts) 100;
          trendL = nullish (trendLen opts) 200;
          adxL = nullish (adxLen opts) 14;
          adxThr = nullish (opt_adxThreshold opts) 25;
          closes = map close candles;
          highs = map high candles;
          lows = map low candles;
          fastEma = EMA_calculate lib fastL closes;
          slowEma = EMA_calculate lib slowL closes;
          trendEma = EMA_calculate lib trendL closes
      in case ADX_calculate lib highs lows closes adxL of
           None \<Rightarrow> Inl IndicatorError
         | Some adxValues \<Rightarrow>
             trend_loop (trend_bar closes fastEma slowEma trendEma adxValues adxThr (length candles))
               [1 ..< length candles - 5] [])"

section \<open>Example inputs\<close>

definition mk_candle :: "real \<Rightarrow> real \<Rightarrow> real \<Rightarrow> real \<Rightarrow> real \<Rightarrow> candle" where
  "mk_candle o' h l c v = \<lparr>open_price = o', high = h, low = l, close = c, volume = v\<rparr>"

text \<open>
  Three candles whose close crosses above the PSAR at the middle bar and continues up;
  the library returns two PSAR values and, with so few candles, no EMA200 and no ADX value.
\<close>

definition lib0 :: indicators where
  "lib0 = \<lparr>PSAR_calculate = (\<lambda>h l s m. [Some 12, Some 9]),
           EMA_calculate = (\<lambda>p v. []),
           ADX_calculate = (\<lambda>h l c p. Some []),
           toFixed2 = (\<lambda>x. [])\<rparr>"

definition cs0 :: "candle list" where
  "cs0 = [mk_candle 11 12 10 11 500, mk_candle 11 14 11 13 500, mk_candle 13 15 13 14 500]"

text \<open>The same prices with other volumes.\<close>

definition cs0' :: "candle list" where
  "cs0' = [mk_candle 11 12 10 11 101, mk_candle 11 14 11 13 1500, mk_candle 13 15 13 14 777]"

definition cfg0 :: config where
  "cfg0 = \<lparr>psarStep = None, psarMax = None, adxThreshold = None, minFlips = None, rangeMultiplier = None\<rparr>"

text \<open>
  Six candles: the close stays below a flat PSAR of 12 on bars 0 to 3, crosses above it at
  bar 4 and continues up at bar 5.
\<close>

definition lib1 :: indicators where
  "lib1 = \<lparr>PSAR_calculate = (\<lambda>h l s m. replicate 6 (Some 12)),
           EMA_calculate = (\<lambda>p v. []),
           ADX_calculate = (\<lambda>h l c p. Some []),
           toFixed2 = (\<lambda>x. [])\<rparr>"

definition cs1 :: "candle list" where
  "cs1 = [mk_candle 10 11 9 10 500, mk_candle 10 11 9 10 500, mk_candle 10 11 9 10 500,
          mk_candle 10 11 9 10 500, mk_candle 10 14 10 13 500, mk_candle 13 15 13 14 500]"

text \<open>
  250 candles closing at 10, 10, 13, 14, 11, 10, 13, 14, 15 and then flat at 10; the library
  yields a PSAR of 12 for the bars 1 to 6 only. The close crosses up at bar 2, down at
  bar 4 and up at bar 6, each time with continuation.
\<close>

definition lib2 :: indicators where
  "lib2 = \<lparr>PSAR_calculate = (\<lambda>h l s m. [None, Some 12, Some 12, Some 12, Some 12, Some 12, Some 12]),
           EMA_calculate = (\<lambda>p v. []),
           ADX_calculate = (\<lambda>h l c p. Some []),
           toFixed2 = (\<lambda>x. [])\<rparr>"

definition cs2 :: "candle list" where
  "cs2 = [mk_candle 10 11 9 10 500, mk_candle 10 11 9 10 500, mk_candle 10 14 10 13 500,
          mk_candle 13 15 13 14 500, mk_candle 14 14 10 11 500, mk_candle 11 11 9 10 500,
          mk_candle 10 14 10 13 500, mk_candle 13 15 13 14 500, mk_candle 14 16 14 15 500]
         @ replicate 241 (mk_candle 10 11 9 10 500)"

text \<open>
  210 candles closing at 1, with oscillators that read oversold and turning up at every
  bar and an EMA200 of 0: the triple oscillator signals UP at every bar from 199 on.
\<close>

definition osc1 :: oscillators where
  "osc1 = \<lparr>calculateEMA = (\<lambda>c p. [Some 0]),
           calculateRSI = (\<lambda>c. [Some 20, Some 30]),
           calculateStochastic = (\<lambda>h. ([Some 5, Some 10], [Some 5, Some 10])),
           CCI_calculate = (\<lambda>h l c p. [Some (- 200), Some (- 150)])\<rparr>"

definition data1 :: "candle list" where
  "data1 = replicate 210 (mk_candle 1 1 1 1 500)"

text \<open>
  Eight candles closing at 10; the fast EMA crosses above the slow EMA at bar 1, above a
  trend EMA of 5, with an ADX of 40.
\<close>

definition lib3 :: indicators where
  "lib3 = \<lparr>PSAR_calculate = (\<lambda>h l s m. []),
           EMA_calculate = (\<lambda>p v. if p = 50 then Some 1 # replicate 7 (Some 3)
                                   else if p = 100 then replicate 8 (Some 2)
                                   else replicate 8 (Some 5)),
           ADX_calculate = (\<lambda>h l c p. Some (replicate 8 (Some 40))),
           toFixed2 = (\<lambda>x. [])\<rparr>"

definition opts0 :: options where
  "opts0 = \<lparr>fastLen = None, slowLen = None, trendLen = None, adxLen = None, opt_adxThreshold = None\<rparr>"

definition cs3 :: "candle list" where
  "cs3 = replicate 8 (mk_candle 10 11 9 10 500)"

section \<open>Verification\<close>

subsection \<open>What the padding loops compute\<close>

lemma pad_undefined_eq: "pad_undefined n xs = replicate (n - length xs) None @ xs"
proof (induction n xs rule: pad_undefined.induct)
  case (1 n xs)
  show ?case
  proof (cases "length xs < n")
    case True
    then have "n - length xs = Suc (n - Suc (length xs))" by simp
    with True 1 show ?thesis
      by (simp add: pad_undefined.simps [of n xs] replicate_append_same)
  next
    case False
    then show ?thesis by (simp add: pad_undefined.simps [of n xs])
  qed
qed

lemma arr_at_unshift_first_0: "arr_at (unshift_first xs) 0 = arr_at xs 0"
  by (simp add: unshift_first_def arr_at_def)

lemma pad_first_loop_eq: "pad_first_loop d xs = replicate d (arr_at xs 0) @ xs"
proof (induction d arbitrary: xs)
  case 0
  show ?case by simp
next
  case (Suc d)
  have "pad_first_loop (Suc d) xs = replicate d (arr_at xs 0) @ unshift_first xs"
    by (simp add: Suc arr_at_unshift_first_0)
  also have "\<dots> = replicate (Suc d) (arr_at xs 0) @ xs"
    by (simp add: unshift_first_def replicate_append_same)
  finally show ?case .
qed

lemma pad_first_eq: "pad_first n xs = replicate (n - length xs) (arr_at xs 0) @ xs"
  by (simp add: pad_first_def pad_first_loop_eq)

lemma pad_first_while_eq: "pad_first_while n xs = replicate (n - length xs) (arr_at xs 0) @ xs"
proof (induction n xs rule: pad_first_while.induct)
  case (1 n xs)
  show ?case
  proof (cases "length xs < n")
    case True
    then have d: "n - length xs = Suc (n - Suc (length xs))" by simp
    have len: "length (unshift_first xs) = Suc (length xs)"
      by (simp add: unshift_first_def)
    from True 1 have "pad_first_while n xs
        = replicate (n - Suc (length xs)) (arr_at xs 0) @ unshift_first xs"
      by (simp add: pad_first_while.simps [of n xs] arr_at_unshift_first_0 len)
    also have "\<dots> = replicate (n - length xs) (arr_at xs 0) @ xs"
      unfolding d by (simp add: unshift_first_def replicate_append_same)
    finally show ?thesis .
  next
    case False
    then show ?thesis by (simp add: pad_first_while.simps [of n xs])
  qed
qed

lemma arr_at_pad_low: "i < d \<Longrightarrow> arr_at (replicate d v @ xs) i = v"
  by (simp add: arr_at_def nth_append)

lemma arr_at_pad_high: "d \<le> i \<Longrightarrow> arr_at (replicate d v @ xs) i = arr_at xs (i - d)"
  by (auto simp: arr_at_def nth_append)

text \<open>
  Claim C1, as amended. For a series of length M aligned to N candles (M \<le> N), the aligned
  value at every bar i \<ge> N - M is series[i - (N - M)], for every padding loop. At a bar
  i < N - M the value is undefined for the series padded with undefined (EMA, ADX, SMA,
  Stochastic), but for the PSAR series it is the series' first element series[0]
  (both the for-loop and the while-loop form).
\<close>

theorem aligned_value_at:
  assumes "length series \<le> n"
  shows "(i < n - length series \<longrightarrow>
            arr_at (pad_undefined n series) i = None
          \<and> arr_at (pad_first n series) i = arr_at series 0
          \<and> arr_at (pad_first_while n series) i = arr_at series 0)
       \<and> (n - length series \<le> i \<longrightarrow>
            arr_at (pad_undefined n series) i = arr_at series (i - (n - length series))
          \<and> arr_at (pad_first n series) i = arr_at series (i - (n - length series))
          \<and> arr_at (pad_first_while n series) i = arr_at series (i - (n - length series)))"
  by (simp add: pad_undefined_eq pad_first_eq pad_first_while_eq arr_at_pad_low arr_at_pad_high)

theorem aligned_value_at_witness:
  "length [Some 10, Some (11::real)] \<le> (3::nat)
   \<and> arr_at (pad_undefined 3 [Some 10, Some 11]) 0 = None
   \<and> arr_at (pad_first 3 [Some 10, Some 11]) 0 = Some 10
   \<and> arr_at (pad_first_while 3 [Some 10, Some 11]) 0 = Some 10
   \<and> arr_at (pad_undefined 3 [Some 10, Some 11]) 2 = Some 11
   \<and> arr_at (pad_first 3 [Some 10, Some 11]) 2 = Some 11
   \<and> arr_at (pad_first_while 3 [Some 10, Some 11]) 2 = Some 11"
proof -
  have len: "length [Some 10, Some (11::real)] \<le> (3::nat)" by simp
  have lo: "(0::nat) < 3 - length [Some 10, Some (11::real)]" by simp
  have hi: "3 - length [Some 10, Some (11::real)] \<le> (2::nat)" by simp
  from aligned_value_at [OF len, of 0] lo
  have a: "arr_at (pad_undefined 3 [Some 10, Some 11]) 0 = None
     \<and> arr_at (pad_first 3 [Some 10, Some 11]) 0 = arr_at [Some 10, Some 11] 0
     \<and> arr_at (pad_first_while 3 [Some 10, Some 11]) 0 = arr_at [Some 10, Some 11] 0"
    by blast
  from aligned_value_at [OF len, of 2] hi
  have b: "arr_at (pad_undefined 3 [Some 10, Some 11]) 2
        = arr_at [Some 10, Some 11] (2 - (3 - length [Some 10, Some (11::real)]))
     \<and> arr_at (pad_first 3 [Some 10, Some 11]) 2
        = arr_at [Some 10, Some 11] (2 - (3 - length [Some 10, Some (11::real)]))
     \<and> arr_at (pad_first_while 3 [Some 10, Some 11]) 2
        = arr_at [Some 10, Some 11] (2 - (3 - length [Some 10, Some (11::real)]))"
    by blast
  from a b len show ?thesis
    by (simp add: arr_at_def)
qed

text \<open>
  The claim as stated fails for the PSAR series: two PSAR values aligned to three candles
  give the first value, not undefined, at bar 0 < N - M.
\<close>

theorem psar_padding_counterexample:
  "\<not> (\<forall>i. i < 3 - length [Some 10, Some (11::real)] \<longrightarrow>
         arr_at (pad_first 3 [Some 10, Some 11]) i = None)"
proof
  assume "\<forall>i. i < 3 - length [Some 10, Some (11::real)] \<longrightarrow>
         arr_at (pad_first 3 [Some 10, Some 11]) i = None"
  then have "arr_at (pad_first 3 [Some 10, Some (11::real)]) 0 = None"
    by simp
  then show False
    by (simp add: pad_first_eq arr_at_def)
qed

subsection \<open>Evaluating the strategies on concrete inputs\<close>

lemmas eval_defs = psarAdxSignal_def psarSignal_def nullish_def psar_aligned_def ema200_aligned_def
  adx_aligned_def pad_first_eq pad_undefined_eq arr_at_def num_at_def detect_cross_def flip_direction_def up_cross_def
  down_cross_def js_le_def js_gt_def js_ge_def js_lt_def continuation_def range_blocks_def
  persistence_blocks_def ema_blocks_def adx_blocks_def psar_adx_confidence_def direction_text_def
  sides_before_def Let_def

subsection \<open>The flip detector\<close>





subsection \<open>Undefined indicator values in the filters\<close>





subsection \<open>The persistence filter of psarAdxSignal\<close>

lemma sides_before_Suc:
  "sides_before closes psarArr (Suc k)
     = js_gt (num_at closes k) (arr_at psarArr k) # sides_before closes psarArr k"
  by (simp add: sides_before_def)

text \<open>
  The walk compares each earlier bar with the side of the cross bar itself, which is the
  side after the flip. After an UP flip the bar before the cross is on the other side, so
  the walk stops at once with a count of 1 and every \<open>minFlips > 1\<close> rejects the signal,
  however long the price stayed below the PSAR.
\<close>

lemma up_cross_never_persistent:
  assumes "up_cross (num_at closes k) (arr_at psarArr k) (num_at closes (Suc k)) (arr_at psarArr (Suc k))"
    and "1 < minFl"
  shows "persistence_blocks minFl closes psarArr (Suc k)"
proof -
  from assms(1) have cur: "js_gt (num_at closes (Suc k)) (arr_at psarArr (Suc k))"
    and prev: "\<not> js_gt (num_at closes k) (arr_at psarArr k)"
    by (auto simp: up_cross_def js_le_def js_gt_def split: option.splits)
  then show ?thesis
    using assms(2) by (simp add: persistence_blocks_def sides_before_Suc Let_def)
qed

text \<open>
  Claim C4, the code at the failing input. The close stays below the PSAR on the four
  bars before the UP flip at bar 4, and the signal fires with the default \<open>minFlips = 1\<close>;
  with \<open>minFlips = 2\<close> the persistence filter rejects it, although the price stayed on
  the pre-flip side for four consecutive bars.
\<close>

theorem persistence_failing_input:
  "sides_before (map close cs1) (psar_aligned lib1 cs1 0.02 0.2) 4 = [False, False, False, False]
   \<and> signal (psarAdxSignal lib1 (Array cs1) cfg0) = Some UP
   \<and> psarAdxSignal lib1 (Array cs1) (cfg0\<lparr>minFlips := Some 2\<rparr>) = neutral"
  by (simp add: eval_defs lib1_def cs1_def cfg0_def mk_candle_def eval_nat_numeral)

subsection \<open>Inputs that are too short\<close>

text \<open>
  Claim C8. For an input that is not an array, or an array of fewer than three candles,
  \<open>psarSignal\<close> and \<open>psarAdxSignal\<close> return the neutral signal, whatever the indicator
  library and the configuration are: no indicator value and no filter enters the result.
\<close>

theorem short_input_neutral:
  "psarSignal lib NotArray = \<lparr>signal = None, confidence = 0, reason = [], skipped = True\<rparr>
   \<and> psarAdxSignal lib NotArray cfg = \<lparr>signal = None, confidence = 0, reason = [], skipped = True\<rparr>
   \<and> (length candles < 3 \<longrightarrow>
        psarSignal lib (Array candles) = \<lparr>signal = None, confidence = 0, reason = [], skipped = True\<rparr>
      \<and> psarAdxSignal lib (Array candles) cfg
          = \<lparr>signal = None, confidence = 0, reason = [], skipped = True\<rparr>)"
  by (simp add: psarSignal_def psarAdxSignal_def neutral_def)

theorem short_input_neutral_witness:
  "length (take 2 cs0) < 3
   \<and> psarSignal lib0 (Array (take 2 cs0)) = \<lparr>signal = None, confidence = 0, reason = [], skipped = True\<rparr>
   \<and> psarAdxSignal lib0 (Array (take 2 cs0)) cfg0
       = \<lparr>signal = None, confidence = 0, reason = [], skipped = True\<rparr>
   \<and> skipped (psarAdxSignal lib0 (Array cs0) cfg0) = False"
proof -
  have 1: "length (take 2 cs0) < 3" by simp
  have 2: "skipped (psarAdxSignal lib0 (Array cs0) cfg0) = False"
    by (simp add: eval_defs lib0_def cs0_def cfg0_def mk_candle_def)
  from short_input_neutral [of lib0 cfg0 "take 2 cs0"] 1 2 show ?thesis
    by blast
qed

subsection \<open>Independence of the volume\<close>

text \<open>
  Claim C7. Two candle arrays that agree on every bar's open, high, low and close, whatever
  their volumes, give the same signal from \<open>psarSignal\<close> and \<open>psarAdxSignal\<close> and the same
  result (total, correct, accuracy, or the same error) from \<open>backtestStrategy\<close>, for every
  indicator library: the library is handed the high, low and close arrays only.
\<close>

theorem volume_independent:
  assumes "agree_on_prices cs cs'"
  shows "psarSignal lib (Array cs) = psarSignal lib (Array cs')
       \<and> psarAdxSignal lib (Array cs) cfg = psarAdxSignal lib (Array cs') cfg
       \<and> backtestStrategy lib cs expiryBars adxThr minFl step mx rangeMult
           = backtestStrategy lib cs' expiryBars adxThr minFl step mx rangeMult"
proof -
  from assms have h: "map high cs = map high cs'" and l: "map low cs = map low cs'"
    and c: "map close cs = map close cs'"
    by (simp_all add: agree_on_prices_def)
  from h have n: "length cs = length cs'"
    by (rule map_eq_imp_length_eq)
  have p: "psar_aligned lib cs s m = psar_aligned lib cs' s m" for s m
    by (simp add: psar_aligned_def h l n)
  have e: "ema200_aligned lib cs = ema200_aligned lib cs'"
    by (simp add: ema200_aligned_def c n)
  have a: "adx_aligned lib cs = adx_aligned lib cs'"
    unfolding adx_aligned_def h l c n by (rule refl)
  have 1: "psarSignal lib (Array cs) = psarSignal lib (Array cs')"
    unfolding psarSignal_def js_input.case p e c n by (rule refl)
  have 2: "psarAdxSignal lib (Array cs) cfg = psarAdxSignal lib (Array cs') cfg"
    unfolding psarAdxSignal_def js_input.case p e a h l c n by (rule refl)
  have 3: "backtestStrategy lib cs expiryBars adxThr minFl step mx rangeMult
           = backtestStrategy lib cs' expiryBars adxThr minFl step mx rangeMult"
    unfolding backtestStrategy_def h l c n by (rule refl)
  from 1 2 3 show ?thesis by simp
qed

theorem volume_independent_witness:
  "agree_on_prices cs0 cs0' \<and> map volume cs0 \<noteq> map volume cs0'
   \<and> psarSignal lib0 (Array cs0) = psarSignal lib0 (Array cs0')
   \<and> psarAdxSignal lib0 (Array cs0) cfg0 = psarAdxSignal lib0 (Array cs0') cfg0
   \<and> backtestStrategy lib0 cs0 1 20 1 0.02 0.2 0 = backtestStrategy lib0 cs0' 1 20 1 0.02 0.2 0"
proof -
  have a: "agree_on_prices cs0 cs0'"
    by (simp add: agree_on_prices_def cs0_def cs0'_def mk_candle_def)
  have v: "map volume cs0 \<noteq> map volume cs0'"
    by (simp add: cs0_def cs0'_def mk_candle_def)
  from volume_independent [OF a] a v show ?thesis by simp
qed

subsection \<open>Rounding at concrete values\<close>

lemmas fl_defs = fl_def binary_exponent.simps ulp_at_def round_half_even_def Let_def power_int_minus

lemma fl_1: "fl 1 = 1"
  by (simp add: fl_defs)

lemma fl_100: "fl 100 = 100"
  by (simp add: fl_defs)

lemma fl_one_third: "fl (1 / 3) = 6004799503160661 / 2 ^ 54"
  by (simp add: fl_defs)

lemma fl_one_third_times_100: "fl (fl (1 / 3) * 100) = 4691249611844266 / 2 ^ 47"
  unfolding fl_one_third by (simp add: fl_defs)

lemma fl_100_thirds: "fl (fl (100 * 1) / 3) = 4691249611844267 / 2 ^ 47"
  by (simp add: fl_100) (simp add: fl_defs)

subsection \<open>Trade outcome and accuracy\<close>

lemma bt_step_no_psar:
  "arr_at psarArr i = None \<Longrightarrow>
   bt_step highs lows closes psarArr ema200Arr adxArr expiryBars adxThr minFl rangeMult st i = bump_bars st"
  by (simp add: bt_step_def)

lemma foldl_bt_step_no_psar:
  assumes "\<forall>i \<in> set idxs. arr_at psarArr i = None"
  shows "totalTrades (foldl (bt_step highs lows closes psarArr ema200Arr adxArr expiryBars adxThr minFl rangeMult) st idxs)
           = totalTrades st
       \<and> correctTrades (foldl (bt_step highs lows closes psarArr ema200Arr adxArr expiryBars adxThr minFl rangeMult) st idxs)
           = correctTrades st"
  using assms
  by (induction idxs arbitrary: st) (simp_all add: bt_step_no_psar bump_bars_def)

lemma bt_step_outcome:
  assumes "i + 1 + expiryBars < length closes"
  shows "(totalTrades (bt_step highs lows closes psarArr ema200Arr adxArr expiryBars adxThr minFl rangeMult st i)
            = totalTrades st
          \<and> correctTrades (bt_step highs lows closes psarArr ema200Arr adxArr expiryBars adxThr minFl rangeMult st i)
            = correctTrades st)
       \<or> (\<exists>d. detect_cross (num_at closes (i - 1)) (arr_at psarArr (i - 1))
                            (num_at closes i) (arr_at psarArr i) = Some d
            \<and> totalTrades (bt_step highs lows closes psarArr ema200Arr adxArr expiryBars adxThr minFl rangeMult st i)
                = totalTrades st + 1
            \<and> correctTrades (bt_step highs lows closes psarArr ema200Arr adxArr expiryBars adxThr minFl rangeMult st i)
                = correctTrades st
                  + (if (d = UP \<and> closes ! (i + 1 + expiryBars) > closes ! (i + 1))
                        \<or> (d = DOWN \<and> closes ! (i + 1 + expiryBars) < closes ! (i + 1))
                     then 1 else 0))"
proof (cases "detect_cross (num_at closes (i - 1)) (arr_at psarArr (i - 1))
                            (num_at closes i) (arr_at psarArr i)")
  case None
  then show ?thesis
    by (simp add: bt_step_def bump_bars_def Let_def)
next
  case (Some d)
  define entryP where "entryP = num_at closes (i + 1)"
  define exitP where "exitP = num_at closes (i + 1 + expiryBars)"
  have w: "isWin d entryP exitP
      = ((d = UP \<and> closes ! (i + 1 + expiryBars) > closes ! (i + 1))
         \<or> (d = DOWN \<and> closes ! (i + 1 + expiryBars) < closes ! (i + 1)))"
    using assms by (cases d) (simp_all add: entryP_def exitP_def isWin_def num_at_def js_gt_def js_lt_def)
  have o: "totalTrades (open_trade d entryP exitP st') = totalTrades st' + 1
      \<and> correctTrades (open_trade d entryP exitP st')
          = correctTrades st' + (if isWin d entryP exitP then 1 else 0)" for st'
    by (simp add: open_trade_def)
  have step: "bt_step highs lows closes psarArr ema200Arr adxArr expiryBars adxThr minFl rangeMult st i
      = bump_bars st
    \<or> bt_step highs lows closes psarArr ema200Arr adxArr expiryBars adxThr minFl rangeMult st i
      = st\<lparr>barsSinceFlip := 0\<rparr>
    \<or> bt_step highs lows closes psarArr ema200Arr adxArr expiryBars adxThr minFl rangeMult st i
      = open_trade d entryP exitP (st\<lparr>barsSinceFlip := 0\<rparr>)"
    unfolding bt_step_def Let_def Some option.case entryP_def exitP_def
    by (simp only: split: if_split) blast
  then show ?thesis
  proof (elim disjE)
    assume "bt_step highs lows closes psarArr ema200Arr adxArr expiryBars adxThr minFl rangeMult st i
      = bump_bars st"
    then show ?thesis by (simp add: bump_bars_def)
  next
    assume "bt_step highs lows closes psarArr ema200Arr adxArr expiryBars adxThr minFl rangeMult st i
      = st\<lparr>barsSinceFlip := 0\<rparr>"
    then show ?thesis by simp
  next
    assume a: "bt_step highs lows closes psarArr ema200Arr adxArr expiryBars adxThr minFl rangeMult st i
      = open_trade d entryP exitP (st\<lparr>barsSinceFlip := 0\<rparr>)"
    have "totalTrades (bt_step highs lows closes psarArr ema200Arr adxArr expiryBars adxThr minFl rangeMult st i)
        = totalTrades st + 1"
      and "correctTrades (bt_step highs lows closes psarArr ema200Arr adxArr expiryBars adxThr minFl rangeMult st i)
        = correctTrades st
          + (if (d = UP \<and> closes ! (i + 1 + expiryBars) > closes ! (i + 1))
                \<or> (d = DOWN \<and> closes ! (i + 1 + expiryBars) < closes ! (i + 1))
             then 1 else 0)"
      unfolding a using o [of "st\<lparr>barsSinceFlip := 0\<rparr>"] w by simp_all
    with Some show ?thesis by blast
  qed
qed

lemma resolve_trades_counts:
  "totalTrades (resolve_trades i closeNow ts st)
     = totalTrades st + length (filter (\<lambda>t. expiryIndex t = i) ts)
   \<and> correctTrades (resolve_trades i closeNow ts st)
     = correctTrades st
       + length (filter (\<lambda>t. expiryIndex t = i
                   \<and> ((direction t = UP \<and> closeNow > entryPrice t)
                      \<or> (direction t = DOWN \<and> closeNow < entryPrice t))) ts)
   \<and> openTrades (resolve_trades i closeNow ts st)
     = openTrades st @ filter (\<lambda>t. expiryIndex t \<noteq> i) ts"
  by (induction ts arbitrary: st) (simp_all add: trade_correct_def Let_def)

lemma expire_counts:
  "totalTrades (expire i closeNow st)
     = totalTrades st + length (filter (\<lambda>t. expiryIndex t = i) (openTrades st))
   \<and> correctTrades (expire i closeNow st)
     = correctTrades st
       + length (filter (\<lambda>t. expiryIndex t = i
                   \<and> ((direction t = UP \<and> closeNow > entryPrice t)
                      \<or> (direction t = DOWN \<and> closeNow < entryPrice t))) (openTrades st))
   \<and> openTrades (expire i closeNow st) = filter (\<lambda>t. expiryIndex t \<noteq> i) (openTrades st)"
  by (simp add: expire_def resolve_trades_counts)

lemma triple_step_counts:
  "totalTrades (triple_step osc data st i)
     = totalTrades st + length (filter (\<lambda>t. expiryIndex t = i) (openTrades st))
   \<and> correctTrades (triple_step osc data st i)
     = correctTrades st
       + length (filter (\<lambda>t. expiryIndex t = i
                   \<and> ((direction t = UP \<and> close (data ! i) > entryPrice t)
                      \<or> (direction t = DOWN \<and> close (data ! i) < entryPrice t))) (openTrades st))"
  by (simp add: triple_step_def Let_def expire_counts split: option.splits)

text \<open>
  Claim C6, as amended. Whenever an iteration of the batch backtest counts a trade, it
  counts it as correct iff the direction is UP and the close at the expiry bar
  i + 1 + expiryBars is strictly above the entry price, the close at bar i + 1, or the
  direction is DOWN and that close is strictly below it; an unchanged price is a loss. At
  each bar the triple oscillator backtest counts the open trades expiring there, and as
  correct those for which the same rule holds between this bar's close and the trade's
  entry price. The accuracy reported is \<open>(correct / total) * 100\<close> computed in doubles,
  the quotient rounded and then the product, when total > 0, and 0 otherwise; it is 100
  when every trade is correct.
\<close>

theorem trade_outcome_and_accuracy:
  assumes "i + 1 + expiryBars < length closes"
  shows "((totalTrades (bt_step highs lows closes psarArr ema200Arr adxArr expiryBars adxThr minFl rangeMult st i)
            = totalTrades st
          \<and> correctTrades (bt_step highs lows closes psarArr ema200Arr adxArr expiryBars adxThr minFl rangeMult st i)
            = correctTrades st)
       \<or> (\<exists>d. detect_cross (num_at closes (i - 1)) (arr_at psarArr (i - 1))
                            (num_at closes i) (arr_at psarArr i) = Some d
            \<and> totalTrades (bt_step highs lows closes psarArr ema200Arr adxArr expiryBars adxThr minFl rangeMult st i)
                = totalTrades st + 1
            \<and> correctTrades (bt_step highs lows closes psarArr ema200Arr adxArr expiryBars adxThr minFl rangeMult st i)
                = correctTrades st
                  + (if (d = UP \<and> closes ! (i + 1 + expiryBars) > closes ! (i + 1))
                        \<or> (d = DOWN \<and> closes ! (i + 1 + expiryBars) < closes ! (i + 1))
                     then 1 else 0)))
   \<and> totalTrades (triple_step osc data tst j)
       = totalTrades tst + length (filter (\<lambda>t. expiryIndex t = j) (openTrades tst))
   \<and> correctTrades (triple_step osc data tst j)
       = correctTrades tst
         + length (filter (\<lambda>t. expiryIndex t = j
                     \<and> ((direction t = UP \<and> close (data ! j) > entryPrice t)
                        \<or> (direction t = DOWN \<and> close (data ! j) < entryPrice t))) (openTrades tst))
   \<and> (backtestStrategy lib candles expiryBars adxThr minFl step mx rangeMult = Inr res \<longrightarrow>
        accuracy res = (if total res > 0 then fl (fl (real (correct res) / real (total res)) * 100) else 0)
        \<and> (total res > 0 \<and> correct res = total res \<longrightarrow> accuracy res = 100))
   \<and> (triple_backtest osc data = Inr res' \<longrightarrow>
        accuracy res' = (if total res' > 0 then fl (fl (real (correct res') / real (total res')) * 100) else 0)
        \<and> (total res' > 0 \<and> correct res' = total res' \<longrightarrow> accuracy res' = 100))"
proof -
  have full: "fl (fl (real n / real n) * 100) = 100" if "0 < n" for n :: nat
    using that by (simp add: fl_1 fl_100)
  have 6: "backtestStrategy lib candles expiryBars adxThr minFl step mx rangeMult = Inr res \<longrightarrow>
        accuracy res = (if total res > 0 then fl (fl (real (correct res) / real (total res)) * 100) else 0)
        \<and> (total res > 0 \<and> correct res = total res \<longrightarrow> accuracy res = 100)"
    using full
    by (auto simp: backtestStrategy_def Let_def accuracy_of_def split: if_splits option.splits)
  have 7: "triple_backtest osc data = Inr res' \<longrightarrow>
        accuracy res' = (if total res' > 0 then fl (fl (real (correct res') / real (total res')) * 100) else 0)
        \<and> (total res' > 0 \<and> correct res' = total res' \<longrightarrow> accuracy res' = 100)"
    using full
    by (auto simp: triple_backtest_def Let_def accuracy_of_def split: if_splits)
  from bt_step_outcome [OF assms] triple_step_counts [of osc data tst j] 6 7
  show ?thesis by blast
qed

text \<open>
  A run with three trades. The UP flip at bar 2 enters at 14 and exits at 11, the DOWN
  flip at bar 4 enters at 10 and exits at 13, the UP flip at bar 6 enters at 14 and exits
  at 15: one trade of three is correct.
\<close>

lemma cs2_run:
  "backtestStrategy lib2 cs2 1 20 1 0.02 0.2 0
     = Inr \<lparr>total = 3, correct = 1, accuracy = 4691249611844266 / 2 ^ 47\<rparr>"
proof -
  let ?cl = "map close cs2" and ?hi = "map high cs2" and ?lo = "map low cs2"
  let ?ps = "[None, Some 12, Some 12, Some 12, Some 12, Some 12, Some (12::real)]"
  let ?F = "bt_step ?hi ?lo ?cl ?ps [] [] 1 20 1 0"
  note step_defs = bt_step_def cs2_def mk_candle_def arr_at_def num_at_def detect_cross_def
    flip_direction_def up_cross_def down_cross_def js_le_def js_gt_def js_ge_def js_lt_def
    continuation_def range_blocks_def ema_blocks_def adx_blocks_def open_trade_def isWin_def
    bump_bars_def Let_def eval_nat_numeral
  have "[1 ..< 7 + 241] = [1 ..< 7] @ [7 ..< 7 + (241::nat)]"
    by (rule upt_add_eq_append) simp
  moreover have "[1 ..< 7] = [1, 2, 3, 4, 5, 6::nat]"
    by (simp add: upt_rec)
  moreover have "length cs2 - (1 + 1) = 7 + 241" and "7 + 241 = (248::nat)"
    by (simp_all add: cs2_def)
  ultimately have idx: "loop_indices (length cs2) 1 = [1, 2, 3, 4, 5, 6] @ [7 ..< 248]"
    by (simp only: loop_indices_def)
  have s1: "?F bt_init 1 = \<lparr>totalTrades = 0, correctTrades = 0, barsSinceFlip = 1\<rparr>"
    by (simp add: bt_step_def bt_init_def bump_bars_def arr_at_def)
  have s2: "?F \<lparr>totalTrades = 0, correctTrades = 0, barsSinceFlip = 1\<rparr> 2
      = \<lparr>totalTrades = 1, correctTrades = 0, barsSinceFlip = 0\<rparr>"
    by (simp add: step_defs)
  have s3: "?F \<lparr>totalTrades = 1, correctTrades = 0, barsSinceFlip = 0\<rparr> 3
      = \<lparr>totalTrades = 1, correctTrades = 0, barsSinceFlip = 1\<rparr>"
    by (simp add: step_defs)
  have s4: "?F \<lparr>totalTrades = 1, correctTrades = 0, barsSinceFlip = 1\<rparr> 4
      = \<lparr>totalTrades = 2, correctTrades = 0, barsSinceFlip = 0\<rparr>"
    by (simp add: step_defs)
  have s5: "?F \<lparr>totalTrades = 2, correctTrades = 0, barsSinceFlip = 0\<rparr> 5
      = \<lparr>totalTrades = 2, correctTrades = 0, barsSinceFlip = 1\<rparr>"
    by (simp add: step_defs)
  have s6: "?F \<lparr>totalTrades = 2, correctTrades = 0, barsSinceFlip = 1\<rparr> 6
      = \<lparr>totalTrades = 3, correctTrades = 1, barsSinceFlip = 0\<rparr>"
    by (simp add: step_defs)
  have rest: "\<forall>i \<in> set [7 ..< 248]. arr_at ?ps i = None"
    by (simp add: arr_at_def)
  have "foldl ?F bt_init (loop_indices (length cs2) 1)
      = foldl ?F \<lparr>totalTrades = 3, correctTrades = 1, barsSinceFlip = 0\<rparr> [7 ..< 248]"
    unfolding idx by (simp only: foldl_append foldl_Cons foldl_Nil s1 s2 s3 s4 s5 s6)
  with foldl_bt_step_no_psar [OF rest, of ?hi ?lo ?cl "[]" "[]" 1 20 1 0
      "\<lparr>totalTrades = 3, correctTrades = 1, barsSinceFlip = 0\<rparr>"]
  have tot: "totalTrades (foldl ?F bt_init (loop_indices (length cs2) 1)) = 3"
    and cor: "correctTrades (foldl ?F bt_init (loop_indices (length cs2) 1)) = 1"
    by simp_all
  have len: "\<not> length cs2 < 250" by (simp add: cs2_def)
  have acc: "accuracy_of 3 1 = 4691249611844266 / 2 ^ 47"
    using fl_one_third_times_100 by (simp add: accuracy_of_def)
  show ?thesis
    using len tot cor acc
    by (simp add: backtestStrategy_def lib2_def Let_def)
qed

theorem trade_outcome_and_accuracy_witness:
  "2 + 1 + 1 < length (map close cs2)
   \<and> backtestStrategy lib2 cs2 1 20 1 0.02 0.2 0
       = Inr \<lparr>total = 3, correct = 1, accuracy = 4691249611844266 / 2 ^ 47\<rparr>
   \<and> fl (fl (real 1 / real 3) * 100) = 4691249611844266 / 2 ^ 47"
proof -
  have a: "2 + 1 + 1 < length (map close cs2)" by (simp add: cs2_def)
  from trade_outcome_and_accuracy [OF a, where lib = lib2 and candles = cs2 and adxThr = 20
      and minFl = 1 and step = "0.02" and mx = "0.2" and rangeMult = 0
      and res = "\<lparr>total = 3, correct = 1, accuracy = 4691249611844266 / 2 ^ 47\<rparr>"]
    cs2_run a
  show ?thesis by simp
qed

text \<open>
  The claim as stated fails for the accuracy: with one correct trade of three the reported
  value is 33.33333333333333 (4691249611844266 / 2^47), which is neither 100 * 1 / 3 nor
  that expression computed in doubles, 33.333333333333336 (4691249611844267 / 2^47).
\<close>

theorem accuracy_counterexample:
  "backtestStrategy lib2 cs2 1 20 1 0.02 0.2 0
     = Inr \<lparr>total = 3, correct = 1, accuracy = 4691249611844266 / 2 ^ 47\<rparr>
   \<and> (4691249611844266 / 2 ^ 47 :: real) \<noteq> 100 * real 1 / real 3
   \<and> (4691249611844266 / 2 ^ 47 :: real) \<noteq> fl (fl (100 * real 1) / real 3)"
  using cs2_run fl_100_thirds by simp

subsection \<open>Array reads of the batch backtest loop\<close>

lemma bt_reads_candle_bounds:
  assumes "1 \<le> i" and "i + 1 + expiryBars < n"
    and "(a, k) \<in> set (bt_reads highs lows closes psarArr ema200Arr adxArr expiryBars adxThr minFl rangeMult st i)"
    and "candle_array a"
  shows "k < n"
  using assms
  by (auto simp: bt_reads_def candle_array_def Let_def split: if_splits option.splits)

lemma bt_loop_reads_bounds:
  assumes "\<forall>i \<in> set idxs. \<forall>st. \<forall>(a, k) \<in> set (reads st i). P a k"
  shows "\<forall>(a, k) \<in> set (bt_loop_reads step reads st idxs). P a k"
  using assms
  by (induction idxs arbitrary: st) auto

lemma loop_indices_range: "i \<in> set (loop_indices n expiryBars) \<Longrightarrow> 1 \<le> i \<and> i + 1 + expiryBars < n"
  by (auto simp: loop_indices_def)

lemma reads_in_loop:
  assumes "i \<in> set idxs"
    and "arr_at psarArr (i - 1) \<noteq> None" and "arr_at psarArr i \<noteq> None"
  shows "(Ema200Arr, i) \<in> set (bt_loop_reads step
            (bt_reads highs lows closes psarArr ema200Arr adxArr expiryBars adxThr minFl rangeMult) st idxs)
       \<and> (Closes, i + 1) \<in> set (bt_loop_reads step
            (bt_reads highs lows closes psarArr ema200Arr adxArr expiryBars adxThr minFl rangeMult) st idxs)"
  using assms
  by (induction idxs arbitrary: st) (auto simp: bt_reads_def)

text \<open>
  Claim C9, as amended. For every candle array and every expiryBars, at every bar i the
  loop visits the entry price at index i + 1 and the exit price at index i + 1 + expiryBars
  are defined elements of the closes array, and every read the loop makes of the closes,
  highs and lows arrays is in bounds. (The reads of the indicator arrays are left out: they
  can fall past the end of those shorter arrays.)
\<close>

theorem candle_reads_in_bounds:
  "(\<forall>i \<in> set (loop_indices (length closes) expiryBars).
       num_at closes (i + 1) \<noteq> None \<and> num_at closes (i + 1 + expiryBars) \<noteq> None)
   \<and> (\<forall>(a, k) \<in> set (backtest_reads highs lows closes psarArr ema200Arr adxArr expiryBars adxThr minFl rangeMult).
         candle_array a \<longrightarrow> k < length closes)"
proof
  show "\<forall>i \<in> set (loop_indices (length closes) expiryBars).
       num_at closes (i + 1) \<noteq> None \<and> num_at closes (i + 1 + expiryBars) \<noteq> None"
    by (auto simp: num_at_def dest: loop_indices_range)
next
  have "\<forall>i \<in> set (loop_indices (length closes) expiryBars). \<forall>st.
          \<forall>(a, k) \<in> set (bt_reads highs lows closes psarArr ema200Arr adxArr expiryBars adxThr minFl rangeMult st i).
            candle_array a \<longrightarrow> k < length closes"
    using bt_reads_candle_bounds loop_indices_range by blast
  then show "\<forall>(a, k) \<in> set (backtest_reads highs lows closes psarArr ema200Arr adxArr expiryBars adxThr minFl rangeMult).
         candle_array a \<longrightarrow> k < length closes"
    unfolding backtest_reads_def by (rule bt_loop_reads_bounds)
qed

theorem candle_reads_in_bounds_witness:
  "5 \<in> set (loop_indices (length (replicate 250 (10::real))) 1)
   \<and> num_at (replicate 250 10) (5 + 1) \<noteq> None \<and> num_at (replicate 250 10) (5 + 1 + 1) \<noteq> None
   \<and> (Closes, 6) \<in> set (backtest_reads (replicate 250 11) (replicate 250 9) (replicate 250 10)
                          (replicate 250 (Some 12)) (replicate 51 (Some 10)) (replicate 223 (Some 30)) 1 20 1 0)
   \<and> candle_array Closes \<and> (6::nat) < length (replicate 250 (10::real))"
proof -
  have i: "(5::nat) \<in> set (loop_indices (length (replicate 250 (10::real))) 1)"
    by (simp add: loop_indices_def)
  then have m: "(Closes, 6) \<in> set (backtest_reads (replicate 250 11) (replicate 250 9) (replicate 250 10)
                          (replicate 250 (Some 12)) (replicate 51 (Some 10)) (replicate 223 (Some 30)) 1 20 1 0)"
    unfolding backtest_reads_def
    using reads_in_loop [of 5 _ "replicate 250 (Some 12)"] by (simp add: arr_at_def)
  have c: "candle_array Closes" by (simp add: candle_array_def)
  from candle_reads_in_bounds [of "replicate 250 10" 1 "replicate 250 11" "replicate 250 9"
      "replicate 250 (Some 12)" "replicate 51 (Some 10)" "replicate 223 (Some 30)" 20 1 0] i m c
  show ?thesis by auto
qed

text \<open>
  The claim as stated fails for the indicator arrays: with 250 candles the EMA200 array
  has 51 elements, and at bar 100 the loop reads \<open>ema200Arr[100]\<close>, past its end.
\<close>

theorem indicator_read_counterexample:
  "\<not> (\<forall>(a, k) \<in> set (backtest_reads (replicate 250 11) (replicate 250 9) (replicate 250 10)
                          (replicate 250 (Some 12)) (replicate 51 (Some 10)) (replicate 223 (Some 30)) 1 20 1 0).
         k < array_length (replicate 250 11) (replicate 250 9) (replicate 250 10)
                          (replicate 250 (Some 12)) (replicate 51 (Some 10)) (replicate 223 (Some 30)) a)"
proof -
  have "(100::nat) \<in> set (loop_indices (length (replicate 250 (10::real))) 1)"
    by (simp add: loop_indices_def)
  then have "(Ema200Arr, 100) \<in> set (backtest_reads (replicate 250 11) (replicate 250 9) (replicate 250 10)
                          (replicate 250 (Some 12)) (replicate 51 (Some 10)) (replicate 223 (Some 30)) 1 20 1 0)"
    unfolding backtest_reads_def
    using reads_in_loop [of 100 _ "replicate 250 (Some 12)"] by (simp add: arr_at_def)
  then show ?thesis
    by (force simp: array_length_def)
qed

subsection \<open>The trade count of the triple oscillator backtest\<close>

lemma resolve_trades_ledger:
  "ledger (resolve_trades i closeNow ts st) = ledger st + length ts"
  by (induction ts arbitrary: st) (simp_all add: ledger_def)

lemma expire_ledger: "ledger (expire i closeNow st) = ledger st"
  by (simp add: expire_def resolve_trades_ledger) (simp add: ledger_def)

lemma triple_step_ledger:
  "ledger (triple_step osc data st i) = ledger st + (if creates_trade osc data i then 1 else 0)"
proof -
  have "ledger (st'\<lparr>openTrades := openTrades st' @ [t]\<rparr>) = ledger st' + 1" for st' t
    by (simp add: ledger_def)
  then show ?thesis
    using expire_ledger [of i "close (data ! i)" st]
    by (auto simp: triple_step_def creates_trade_def Let_def split: option.splits)
qed

lemma triple_run_ledger:
  "ledger (foldl (triple_step osc data) st [0 ..< k]) = ledger st + trades_created osc data k"
  by (induction k) (simp_all add: trades_created_def triple_step_ledger)

text \<open>
  Every trade created is either counted or still open at the end: the total printed is
  the number of trades created less those never resolved.
\<close>

lemma triple_final_ledger:
  "totalTrades (triple_final osc data) + length (openTrades (triple_final osc data))
     = trades_created osc data (length data)"
  using triple_run_ledger [of osc data triple_init "length data"]
  by (simp add: triple_final_def ledger_def triple_init_def)

lemma triple_step_opens:
  "creates_trade osc data i \<Longrightarrow> openTrades (triple_step osc data st i) \<noteq> []"
  by (auto simp: triple_step_def creates_trade_def Let_def split: option.splits)

lemma last_bar_trade_pending:
  assumes "data \<noteq> []" and "creates_trade osc data (length data - 1)"
  shows "totalTrades (triple_final osc data) < trades_created osc data (length data)"
proof -
  from assms(1) have "[0 ..< length data] = [0 ..< length data - 1] @ [length data - 1]"
    by (cases data rule: rev_cases) simp_all
  then have "triple_final osc data
      = triple_step osc data (foldl (triple_step osc data) triple_init [0 ..< length data - 1]) (length data - 1)"
    by (simp add: triple_final_def)
  with triple_step_opens [OF assms(2)] have "openTrades (triple_final osc data) \<noteq> []"
    by simp
  with triple_final_ledger [of osc data] show ?thesis
    by (cases "openTrades (triple_final osc data)") simp_all
qed

lemma osc1_signal: "triple_signal osc1 history candle = (if close candle > 0 then Some UP else None)"
  by (simp add: triple_signal_def osc1_def from_end_def arr_at_def js_lt_def js_gt_def Let_def)

lemma osc1_creates: "i < 210 \<Longrightarrow> creates_trade osc1 data1 i = (199 \<le> i)"
  by (auto simp: creates_trade_def osc1_signal data1_def mk_candle_def)

lemma count_from: "length (filter (\<lambda>i. a \<le> i) [0 ..< n]) = n - a"
  by (induction n) (auto simp: Suc_diff_le)

text \<open>
  Claim C5, the code at the failing input. On 210 candles with a signal at every bar from
  199 on, eleven trades are created (bars 199 to 209); the one created at the last bar
  expires at bar 210, beyond the input, and is never counted: the total reported is less
  than 11.
\<close>

theorem last_bar_trade_not_counted:
  "trades_created osc1 data1 (length data1) = 11
   \<and> (\<exists>res. triple_backtest osc1 data1 = Inr res \<and> total res < 11)"
proof -
  have "filter (creates_trade osc1 data1) [0 ..< 210] = filter (\<lambda>i. 199 \<le> i) [0 ..< 210]"
    by (rule filter_cong) (simp_all add: osc1_creates)
  then have "length (filter (creates_trade osc1 data1) [0 ..< 210]) = 210 - 199"
    by (simp only: count_from)
  then have created: "trades_created osc1 data1 (length data1) = 11"
    by (simp add: trades_created_def data1_def)
  have len: "length data1 = 210" by (simp add: data1_def)
  have "data1 \<noteq> []" by (simp add: data1_def)
  moreover have "creates_trade osc1 data1 (length data1 - 1)"
    unfolding len by (simp add: osc1_creates)
  ultimately have "totalTrades (triple_final osc1 data1) < trades_created osc1 data1 (length data1)"
    by (rule last_bar_trade_pending)
  with created have "totalTrades (triple_final osc1 data1) < 11" by simp
  moreover have "\<not> length data1 < 210" by (simp add: data1_def)
  ultimately show ?thesis
    using created by (simp add: triple_backtest_def Let_def)
qed

subsection \<open>trendStrategy5m: one signal per bar\<close>

lemma crossover_exclusive:
  "\<not> ((js_le prevFast prevSlow \<and> js_gt currFast currSlow) \<and> (js_ge prevFast prevSlow \<and> js_lt currFast currSlow))"
  by (auto simp: js_gt_def js_lt_def split: option.splits)

lemma trend_bar_signals:
  assumes "trend_bar closes fastEma slowEma trendEma adxValues adxThr n i = Inr new"
  shows "length new \<le> 1 \<and> (\<forall>s \<in> set new. sig_index s = i)"
proof -
  have ex: "\<not> (js_gt a b \<and> js_lt a b)" for a b
    by (auto simp: js_gt_def js_lt_def split: option.splits)
  from assms show ?thesis
    using ex
    by (auto simp: trend_bar_def Let_def split: if_splits option.splits)
qed

lemma trend_loop_distinct:
  assumes "trend_loop body idxs signals = Inr out"
    and "\<And>i new. body i = Inr new \<Longrightarrow> length new \<le> 1 \<and> (\<forall>s \<in> set new. sig_index s = i)"
    and "distinct idxs"
    and "distinct (map sig_index signals)"
    and "sig_index ` set signals \<inter> set idxs = {}"
  shows "distinct (map sig_index out)"
  using assms
proof (induction idxs arbitrary: signals)
  case Nil
  then show ?case by simp
next
  case (Cons i rest)
  from Cons.prems(1) obtain new where b: "body i = Inr new"
    and l: "trend_loop body rest (signals @ new) = Inr out"
    by (auto split: sum.splits)
  from Cons.prems(2) [OF b] have n1: "length new \<le> 1" and ni: "\<forall>s \<in> set new. sig_index s = i"
    by simp_all
  from n1 have dn: "distinct (map sig_index new)"
    by (cases new) (simp_all add: Suc_le_eq)
  from ni Cons.prems(5) have disj: "sig_index ` set signals \<inter> sig_index ` set new = {}"
    by auto
  have d: "distinct (map sig_index (signals @ new))"
    using Cons.prems(4) dn disj by simp
  have i: "sig_index ` set (signals @ new) \<inter> set rest = {}"
    using Cons.prems(3,5) ni by auto
  from Cons.prems(3) have "distinct rest" by simp
  from Cons.IH [OF l Cons.prems(2) this d i] show ?case by simp
qed

lemma distinct_filter_le1:
  "distinct (map f xs) \<Longrightarrow> length (filter (\<lambda>s. f s = i) xs) \<le> 1"
  by (induction xs) (force simp: filter_empty_conv image_iff)+

text \<open>The read \<open>adxValues[adxIdx].adx\<close> never throws: adxIdx is below the array's length.\<close>

lemma trend_bar_no_throw:
  "i < n \<Longrightarrow> trend_bar closes fastEma slowEma trendEma adxValues adxThr n i \<noteq> Inl e"
  by (auto simp: trend_bar_def Let_def split: option.splits)

lemma trend_loop_no_throw:
  "\<forall>i \<in> set idxs. body i \<noteq> Inl e \<Longrightarrow> trend_loop body idxs signals \<noteq> Inl e"
  by (induction idxs arbitrary: signals) (auto split: sum.splits)

lemma trend_never_type_error: "trendStrategy5m lib candles opts \<noteq> Inl TypeError"
proof -
  have "trend_loop (trend_bar closes fastEma slowEma trendEma adxValues adxThr (length candles))
               [1 ..< length candles - 5] [] \<noteq> Inl TypeError" for closes fastEma slowEma trendEma adxValues adxThr
    by (rule trend_loop_no_throw) (auto simp: trend_bar_no_throw)
  then show ?thesis
    by (simp add: trendStrategy5m_def Let_def split: option.splits)
qed

text \<open>
  Claim C10. For every candle array, every options record and every indicator library,
  the signals \<open>trendStrategy5m\<close> returns carry pairwise distinct bar indices: at most one
  signal per bar. The bullish and the bearish crossover condition never hold together.
\<close>

theorem one_signal_per_bar:
  assumes "trendStrategy5m lib candles opts = Inr signals"
  shows "distinct (map sig_index signals)
       \<and> (\<forall>i. length (filter (\<lambda>s. sig_index s = i) signals) \<le> 1)
       \<and> \<not> ((js_le prevFast prevSlow \<and> js_gt currFast currSlow)
            \<and> (js_ge prevFast prevSlow \<and> js_lt currFast currSlow))"
proof -
  from assms obtain adxValues where
    l: "trend_loop (trend_bar (map close candles)
          (EMA_calculate lib (nullish (fastLen opts) 50) (map close candles))
          (EMA_calculate lib (nullish (slowLen opts) 100) (map close candles))
          (EMA_calculate lib (nullish (trendLen opts) 200) (map close candles))
          adxValues (nullish (opt_adxThreshold opts) 25) (length candles))
        [1 ..< length candles - 5] [] = Inr signals"
    by (auto simp: trendStrategy5m_def Let_def split: option.splits)
  have d: "distinct (map sig_index signals)"
  proof (rule trend_loop_distinct [OF l])
    fix i new
    assume "trend_bar (map close candles)
          (EMA_calculate lib (nullish (fastLen opts) 50) (map close candles))
          (EMA_calculate lib (nullish (slowLen opts) 100) (map close candles))
          (EMA_calculate lib (nullish (trendLen opts) 200) (map close candles))
          adxValues (nullish (opt_adxThreshold opts) 25) (length candles) i = Inr new"
    then show "length new \<le> 1 \<and> (\<forall>s \<in> set new. sig_index s = i)"
      by (rule trend_bar_signals)
  qed simp_all
  have "length (filter (\<lambda>s. sig_index s = i) signals) \<le> 1" for i
    using d by (rule distinct_filter_le1)
  with d crossover_exclusive [of prevFast prevSlow currFast currSlow] show ?thesis by simp
qed

lemma cs3_run:
  "trendStrategy5m lib3 cs3 opts0 = Inr [\<lparr>sig_index = 1, sig_direction = UP, sig_confidence = 0.8\<rparr>]"
  by (simp add: trendStrategy5m_def lib3_def cs3_def opts0_def nullish_def mk_candle_def trend_bar_def
      arr_at_int_def arr_at_def num_at_def js_le_def js_gt_def js_ge_def js_lt_def Let_def
      upt_rec [of 1] upt_rec [of 2] upt_rec [of 3] eval_nat_numeral)

theorem one_signal_per_bar_witness:
  "trendStrategy5m lib3 cs3 opts0 = Inr [\<lparr>sig_index = 1, sig_direction = UP, sig_confidence = 0.8\<rparr>]
   \<and> distinct (map sig_index [\<lparr>sig_index = 1, sig_direction = UP, sig_confidence = 0.8\<rparr>])"
  using one_signal_per_bar [OF cs3_run] cs3_run by simp

end
